theory Spec2Isabelle
  imports Main
begin

unbundle bit_operations_syntax

section \<open>Machine integers\<close>

text \<open>
  The reader is C++ compiled for an LP64 target: \<open>int\<close> and \<open>uint32_t\<close> have 32 bits,
  \<open>long\<close>, \<open>int64_t\<close> and \<open>uint64_t\<close> have 64 bits.  Values are mathematical
  integers here and every place where the source stores into, or computes in, a fixed
  width applies the reduction of that width explicitly.
\<close>

definition u64 :: "int \<Rightarrow> int" where
  "u64 x = x mod 18446744073709551616"

definition s64 :: "int \<Rightarrow> int" where
  "s64 x = (x + 9223372036854775808) mod 18446744073709551616 - 9223372036854775808"

definition u32 :: "int \<Rightarrow> int" where
  "u32 x = x mod 4294967296"

definition s32 :: "int \<Rightarrow> int" where
  "s32 x = (x + 2147483648) mod 4294967296 - 2147483648"

definition is_u64 :: "int \<Rightarrow> bool" where
  "is_u64 x = (0 \<le> x \<and> x < 18446744073709551616)"

definition is_s64 :: "int \<Rightarrow> bool" where
  "is_s64 x = (- 9223372036854775808 \<le> x \<and> x < 9223372036854775808)"


text \<open>C++ integer division truncates towards zero.\<close>

definition tdiv :: "int \<Rightarrow> int \<Rightarrow> int" where
  "tdiv a b = sgn a * sgn b * (\<bar>a\<bar> div \<bar>b\<bar>)"

type_synonym byte = nat

section \<open>Failures\<close>

text \<open>
  \<open>RunTimeException\<close> is the exception of the source, carrying its format string.
  \<open>BadArrayNewLength\<close> is the C++ exception of \<open>new T[n]\<close> with a negative \<open>n\<close>.
  \<open>DivideByZero\<close> and \<open>MemoryFault\<close> stand for the undefined behaviour of an integer
  division by zero and of an access outside an array: they are not exceptions, and no
  \<open>catch\<close> of the source sees them.
\<close>

datatype error = RunTimeException string | BadArrayNewLength | DivideByZero | MemoryFault


section \<open>shuffleChunk\<close>

text \<open>
  \<open>input_size\<close>, \<open>output_offset\<close> and \<open>output_size\<close> are \<open>uint32_t\<close>, \<open>type_size\<close> is
  \<open>int\<close>; in \<open>input_size / type_size\<close> the \<open>int\<close> is converted to \<open>unsigned int\<close>.
  The result lists the bytes written to \<open>output[0]\<close>, \<open>output[1]\<close>, ... in that order.
\<close>

definition shuffle_indices :: "int \<Rightarrow> int \<Rightarrow> int \<Rightarrow> int \<Rightarrow> int list" where
  "shuffle_indices shuffle_block_size start_element num_elements type_size =
     concat (map (\<lambda>element_index.
                    map (\<lambda>val_index. val_index * shuffle_block_size + element_index)
                        [0 .. type_size - 1])
                 [start_element .. start_element + num_elements - 1])"

definition shuffleChunk ::
  "bool \<Rightarrow> byte list \<Rightarrow> int \<Rightarrow> int \<Rightarrow> int \<Rightarrow> int \<Rightarrow> error + byte list" where
  "shuffleChunk errorChecking input input_size output_offset output_size type_size =
     (if errorChecking \<and> (type_size < 0 \<or> type_size > 8)
      then Inl (RunTimeException ''invalid data size to perform shuffle on: %d'')
      else if u32 type_size = 0 then Inl DivideByZero
      else
        let shuffle_block_size = input_size div u32 type_size;
            num_elements = output_size div u32 type_size;
            start_element = output_offset div u32 type_size;
            srcs = shuffle_indices shuffle_block_size start_element num_elements type_size
        in if list_all (\<lambda>src_index. 0 \<le> src_index \<and> src_index < int (length input)) srcs
           then Inr (map (\<lambda>src_index. input ! nat src_index) srcs)
           else Inl MemoryFault)"

section \<open>The ranged I/O cache\<close>

subsection \<open>Cache entries and the table that holds them\<close>

text \<open>
  \<open>cache_entry_t\<close>: \<open>data\<close> is the address of a buffer made by \<open>new uint8_t[]\<close>
  (\<open>0\<close> is \<open>NULL\<close>), \<open>pos\<close> is a \<open>uint64_t\<close> file position, \<open>size\<close> an \<open>int64_t\<close>.
\<close>

record cache_entry =
  entry_data :: nat
  entry_pos :: int
  entry_size :: int

text \<open>
  Modelled from the spec: the class \<open>Table\<close> behind \<open>cache_t\<close> is not part of the
  sources.  The spec describes it as a bounded map from \<open>u64\<close> keys to cache entries,
  hash-indexed, whose hash masks off the line bits (\<open>key & ~line_mask\<close>, the functions
  \<open>ioHashL1\<close> and \<open>ioHashL2\<close> of the source) so that positions within one line share a
  slot, which evicts the oldest inserted entry, and where a second insert of a key
  supersedes the first.  The entries are kept oldest first.  \<open>table_first\<close> yields the
  key of the oldest entry, or the reserved key \<open>INVALID_KEY\<close> for an empty table.
\<close>

record 'a table =
  items :: "(int \<times> 'a) list"
  capacity :: nat
  hash_mask :: int

definition table_hash :: "'a table \<Rightarrow> int \<Rightarrow> int" where
  "table_hash t key = key AND NOT (hash_mask t)"

definition table_isfull :: "'a table \<Rightarrow> bool" where
  "table_isfull t = (capacity t \<le> length (items t))"

definition table_first :: "int \<Rightarrow> 'a table \<Rightarrow> int \<times> 'a option" where
  "table_first invalid_key t =
     (case items t of [] \<Rightarrow> (invalid_key, None) | (k, e) # rest \<Rightarrow> (k, Some e))"

definition table_remove :: "int \<Rightarrow> 'a table \<Rightarrow> 'a table" where
  "table_remove key t = t\<lparr>items := filter (\<lambda>(k, e). k \<noteq> key) (items t)\<rparr>"

definition table_add :: "int \<Rightarrow> 'a \<Rightarrow> 'a table \<Rightarrow> 'a table" where
  "table_add key entry t =
     (let others = filter (\<lambda>(k, e). k \<noteq> key) (items t)
      in if length others < capacity t then t\<lparr>items := others @ [(key, entry)]\<rparr> else t)"

text \<open>\<open>find(key, MATCH_EXACTLY, &entry)\<close>: the entry stored under \<open>key\<close>.\<close>

definition table_find_exactly :: "int \<Rightarrow> 'a table \<Rightarrow> 'a option" where
  "table_find_exactly key t = map_of (items t) key"

text \<open>\<open>find(key, MATCH_NEAREST_UNDER, &entry)\<close>: the entry of the slot of \<open>key\<close> whose
  key is the greatest one not above \<open>key\<close>.\<close>

definition nearer :: "int \<times> 'a \<Rightarrow> int \<times> 'a \<Rightarrow> int \<times> 'a" where
  "nearer best c = (if fst best < fst c then c else best)"

definition table_find :: "int \<Rightarrow> 'a table \<Rightarrow> 'a option" where
  "table_find key t =
     (case filter (\<lambda>(k, e). table_hash t k = table_hash t key \<and> k \<le> key) (items t) of
        [] \<Rightarrow> None
      | c # cs \<Rightarrow> Some (snd (foldl nearer c cs)))"

subsection \<open>ioCheckCache\<close>

text \<open>
  \<open>size\<close> is an \<open>int64_t\<close> and \<open>pos\<close> a \<open>uint64_t\<close>: the sums \<open>pos + size\<close> and
  \<open>entry->pos + entry->size\<close> are computed in \<open>uint64_t\<close>.  The result is the entry
  left in \<open>*entry\<close> when the function returns \<open>true\<close>, and \<open>None\<close> when it returns
  \<open>false\<close>.
\<close>

definition ioCheckCache ::
  "int \<Rightarrow> int \<Rightarrow> cache_entry table \<Rightarrow> int \<Rightarrow> cache_entry option" where
  "ioCheckCache size' pos cache line_mask =
     (let prev_line_pos = u64 ((pos AND NOT line_mask) - 1);
          check_prev = (pos > prev_line_pos);
          found = (case table_find pos cache of
                     Some entry \<Rightarrow> Some entry
                   | None \<Rightarrow> if check_prev then table_find prev_line_pos cache else None)
      in case found of
           None \<Rightarrow> None
         | Some entry \<Rightarrow>
             if pos \<ge> entry_pos entry \<and>
                u64 (pos + size') \<le> u64 (entry_pos entry + entry_size entry)
             then Some entry else None)"

subsection \<open>ioRead\<close>

text \<open>
  The file and the object store are outside the program: \<open>fseek_ok pos\<close> tells whether
  \<open>fseek\<close> to \<open>pos\<close> succeeds, \<open>fread pos size\<close> and \<open>rangeGet pos size\<close> give the
  number of bytes the backend delivers.
\<close>

datatype io_driver_t = FILE | S3 | UNKNOWN

record backend =
  ioDriver :: io_driver_t
  fseek_ok :: "int \<Rightarrow> bool"
  fread :: "int \<Rightarrow> int \<Rightarrow> int"
  rangeGet :: "int \<Rightarrow> int \<Rightarrow> int"

definition ioRead :: "backend \<Rightarrow> int \<Rightarrow> int \<Rightarrow> error + int" where
  "ioRead b size' pos =
     (case ioDriver b of
        FILE \<Rightarrow>
          if \<not> fseek_ok b pos
          then Inl (RunTimeException ''failed to go to I/O position: 0x%lx'')
          else Inr (fread b pos size')
      | S3 \<Rightarrow> Inr (rangeGet b pos size')
      | UNKNOWN \<Rightarrow> Inr 0)"

subsection \<open>ioRequest\<close>

text \<open>
  The constants of \<open>H5Coro.h\<close>, which is not part of the sources, are parameters.
\<close>

record io_config =
  IO_CACHE_L1_LINESIZE :: int
  IO_CACHE_L1_MASK :: int
  IO_CACHE_L2_MASK :: int
  INVALID_KEY :: int

text \<open>
  The state a request works on: the two caches and the counters of the I/O context,
  the next address \<open>new\<close> hands out, the addresses given to \<open>delete []\<close> so far, and
  the calls of \<open>ioRead\<close> so far, each as (position, size).
\<close>

record io_state =
  l1 :: "cache_entry table"
  l2 :: "cache_entry table"
  read_rqsts :: int
  bytes_read :: int
  next_addr :: nat
  freed :: "nat list"
  backend_reads :: "(int \<times> int) list"

text \<open>What a request returns: the buffer, the offset of the requested data in it, the
  flag stored through \<open>cached\<close>, and the position stored back through \<open>pos\<close>.\<close>

record io_result =
  res_buffer :: nat
  res_offset :: int
  res_cached :: bool
  res_pos :: int

definition cache_probe :: "io_config \<Rightarrow> int \<Rightarrow> int \<Rightarrow> io_state \<Rightarrow> cache_entry option" where
  "cache_probe cfg size' file_position s =
     (case ioCheckCache size' file_position (l1 s) (IO_CACHE_L1_MASK cfg) of
        Some entry \<Rightarrow> Some entry
      | None \<Rightarrow> ioCheckCache size' file_position (l2 s) (IO_CACHE_L2_MASK cfg))"

text \<open>The block "Ensure Room in Cache": the cache after it and the freed addresses.\<close>

definition ensure_room ::
  "int \<Rightarrow> cache_entry table \<Rightarrow> nat list \<Rightarrow> cache_entry table \<times> nat list" where
  "ensure_room invalid_key cache fr =
     (if table_isfull cache
      then (case table_first invalid_key cache of
              (oldest_pos, oldest_entry) \<Rightarrow>
                (table_remove oldest_pos cache,
                 (case oldest_entry of
                    Some e \<Rightarrow> if oldest_pos \<noteq> invalid_key then fr @ [entry_data e] else fr
                  | None \<Rightarrow> fr)))
      else (cache, fr))"

text \<open>The branch \<open>buffer == NULL\<close>: read from the backend and insert into a cache.
  \<open>MAX\<close> is the macro for the greater of two values (the spec: \<open>read_size =
  max(size, hint)\<close>); \<open>new uint8_t[read_size]\<close> raises for a negative size.\<close>

definition ioRequest_miss ::
  "io_config \<Rightarrow> backend \<Rightarrow> int \<Rightarrow> int \<Rightarrow> int \<Rightarrow> io_state \<Rightarrow> (error + io_result) \<times> io_state" where
  "ioRequest_miss cfg b size' file_position hint s =
     (let read_size = max size' hint
      in if read_size < 0 then (Inl BadArrayNewLength, s)
         else
           let data = next_addr s;
               s1 = s\<lparr>next_addr := Suc (next_addr s),
                      backend_reads := backend_reads s @ [(file_position, read_size)]\<rparr>
           in case ioRead b read_size file_position of
                Inl e \<Rightarrow> (Inl e, s1)
              | Inr n \<Rightarrow>
                  if n < size'
                  then (Inl (RunTimeException ''failed to read at least %ld bytes of data: %ld''), s1)
                  else
                    let entry = \<lparr>entry_data = data, entry_pos = file_position, entry_size = n\<rparr>;
                        res = \<lparr>res_buffer = data, res_offset = 0, res_cached = True,
                               res_pos = u64 (file_position + size')\<rparr>
                    in if n \<le> IO_CACHE_L1_LINESIZE cfg
                       then (case ensure_room (INVALID_KEY cfg) (l1 s1) (freed s1) of
                               (cache, fr) \<Rightarrow>
                                 (Inr res,
                                  s1\<lparr>l1 := table_add file_position entry cache, freed := fr,
                                     read_rqsts := read_rqsts s1 + 1,
                                     bytes_read := bytes_read s1 + n\<rparr>))
                       else (case ensure_room (INVALID_KEY cfg) (l2 s1) (freed s1) of
                               (cache, fr) \<Rightarrow>
                                 (Inr res,
                                  s1\<lparr>l2 := table_add file_position entry cache, freed := fr,
                                     read_rqsts := read_rqsts s1 + 1,
                                     bytes_read := bytes_read s1 + n\<rparr>)))"

definition ioRequest ::
  "io_config \<Rightarrow> backend \<Rightarrow> int \<Rightarrow> int \<Rightarrow> int \<Rightarrow> io_state \<Rightarrow> (error + io_result) \<times> io_state" where
  "ioRequest cfg b size' pos hint s =
     (let file_position = pos;
          (buf, buf_offset) =
             (case cache_probe cfg size' file_position s of
                Some entry \<Rightarrow> (entry_data entry, s64 (file_position - entry_pos entry))
              | None \<Rightarrow> (0, 0))
      in if buf = 0
         then ioRequest_miss cfg b size' file_position hint s
         else (Inr \<lparr>res_buffer = buf, res_offset = buf_offset, res_cached = False,
                    res_pos = u64 (pos + size')\<rparr>, s))"

subsection \<open>Predicates and sample data for the cache\<close>

definition bounded :: "'a table \<Rightarrow> bool" where
  "bounded t = (length (items t) \<le> capacity t)"

text \<open>The cache a fetched entry of \<open>n\<close> bytes goes to: L1 if \<open>n\<close> is at most the L1 line
  size, else L2.\<close>

definition selected :: "io_config \<Rightarrow> int \<Rightarrow> io_state \<Rightarrow> cache_entry table" where
  "selected cfg n s = (if n \<le> IO_CACHE_L1_LINESIZE cfg then l1 s else l2 s)"

text \<open>A configuration with 64 KiB lines in L1 and 128 MiB lines in L2, a local file of
  100000 bytes, and a context whose two-entry L1 cache is full.\<close>

definition example_config :: io_config where
  "example_config = \<lparr>IO_CACHE_L1_LINESIZE = 65536, IO_CACHE_L1_MASK = 65535,
     IO_CACHE_L2_MASK = 134217727, INVALID_KEY = 18446744073709551615\<rparr>"

definition example_backend :: backend where
  "example_backend = \<lparr>ioDriver = FILE, fseek_ok = (\<lambda>pos. True),
     fread = (\<lambda>pos n. min n (max 0 (100000 - pos))), rangeGet = (\<lambda>pos n. 0)\<rparr>"

definition example_entry :: cache_entry where
  "example_entry = \<lparr>entry_data = 1, entry_pos = 0, entry_size = 100\<rparr>"

definition example_state :: io_state where
  "example_state = \<lparr>
     l1 = \<lparr>items = [(0, example_entry),
                    (4096, \<lparr>entry_data = 2, entry_pos = 4096, entry_size = 64\<rparr>)],
           capacity = 2, hash_mask = 65535\<rparr>,
     l2 = \<lparr>items = [], capacity = 2, hash_mask = 134217727\<rparr>,
     read_rqsts = 2, bytes_read = 164, next_addr = 3, freed = [], backend_reads = []\<rparr>"

section \<open>Dataset metadata and results\<close>

datatype data_type_t =
  FIXED_POINT_TYPE | FLOATING_POINT_TYPE | TIME_TYPE | STRING_TYPE | BIT_FIELD_TYPE
  | OPAQUE_TYPE | COMPOUND_TYPE | REFERENCE_TYPE | ENUMERATED_TYPE | VARIABLE_LENGTH_TYPE
  | ARRAY_TYPE | UNKNOWN_TYPE

datatype layout_t = COMPACT_LAYOUT | CONTIGUOUS_LAYOUT | CHUNKED_LAYOUT | UNKNOWN_LAYOUT

datatype valType_t = INTEGER | REAL | TEXT | DYNAMIC

text \<open>
  \<open>meta_entry_t\<close> and \<open>dataset_info_t\<close> are declared in \<open>H5Coro.h\<close>, which is not part of
  the sources; the fields are those the source reads and writes.  \<open>dimensions\<close> is an
  array of \<open>MAX_NDIMS\<close> values of type \<open>uint64_t\<close>, and the parser keeps
  \<open>ndims \<le> MAX_NDIMS\<close>.  The integer fields hold the values stored in them; the widths
  the source computes in are applied where it computes.  \<open>info_data = None\<close> is the
  \<open>NULL\<close> pointer, \<open>Some bs\<close> a buffer with the bytes \<open>bs\<close>.
\<close>

record meta_entry_t =
  meta_url :: string
  meta_type :: data_type_t
  meta_typesize :: int
  meta_fill :: "byte list"
  meta_fillsize :: int
  meta_ndims :: int
  meta_dimensions :: "int list"
  meta_chunkelements :: int
  meta_elementsize :: int
  meta_offsetsize :: int
  meta_lengthsize :: int
  meta_layout :: layout_t
  meta_address :: int
  meta_size :: int
  meta_deflate :: bool
  meta_shuffle :: bool

record dataset_info_t =
  info_elements :: int
  info_typesize :: int
  info_datasize :: int
  info_data :: "byte list option"
  info_datatype :: valType_t
  info_numcols :: int
  info_numrows :: int

text \<open>Modelled from the spec: \<open>ALL_ROWS\<close> is declared in \<open>H5Coro.h\<close>; the spec gives it
  as \<open>-1\<close>.\<close>

definition ALL_ROWS :: int where
  "ALL_ROWS = - 1"

section \<open>readDataset\<close>

text \<open>
  \<open>row_size\<close> is a \<open>uint64_t\<close> that starts as \<open>typesize\<close> and is multiplied by
  \<open>dimensions[d]\<close> for \<open>d = 1, ..., ndims - 1\<close>.
\<close>

definition row_size_of :: "meta_entry_t \<Rightarrow> int" where
  "row_size_of md =
     foldl (\<lambda>row_size d. u64 (row_size * (meta_dimensions md ! d)))
           (u64 (meta_typesize md)) [1 ..< nat (meta_ndims md)]"

definition first_dimension_of :: "meta_entry_t \<Rightarrow> int" where
  "first_dimension_of md = (if meta_ndims md > 0 then meta_dimensions md ! 0 else 0)"

text \<open>The value \<open>datasetNumRows\<close> has after the line "Get Number of Rows".\<close>

definition num_rows_of :: "meta_entry_t \<Rightarrow> int \<Rightarrow> int" where
  "num_rows_of md datasetNumRows =
     (if datasetNumRows = ALL_ROWS then first_dimension_of md else datasetNumRows)"

text \<open>
  The checks before the allocation and the size of the buffer: \<open>datasetStartRow\<close> and
  \<open>datasetNumRows\<close> are 64-bit, their sum is compared with the \<open>uint64_t\<close>
  \<open>first_dimension\<close>; \<open>buffer_size\<close> is the \<open>int64_t\<close> of the \<open>uint64_t\<close> product.
\<close>

definition buffer_size_of :: "meta_entry_t \<Rightarrow> int \<Rightarrow> int \<Rightarrow> error + int" where
  "buffer_size_of md datasetStartRow datasetNumRows =
     (if meta_typesize md \<le> 0 then Inl (RunTimeException ''missing data type information'')
      else if u64 (datasetStartRow + num_rows_of md datasetNumRows) > first_dimension_of md
      then Inl (RunTimeException ''read exceeds number of rows: %d + %d > %d'')
      else Inr (s64 (u64 (row_size_of md * num_rows_of md datasetNumRows))))"

text \<open>"Allocate Data Buffer": no buffer unless \<open>buffer_size > 0\<close>.  A fresh buffer is
  not initialised; its bytes are taken as \<open>0\<close>.\<close>

definition new_buffer :: "int \<Rightarrow> byte list option" where
  "new_buffer buffer_size =
     (if buffer_size > 0 then Some (replicate (nat buffer_size) 0) else None)"

text \<open>"Fill Buffer with Fill Value": copies of \<open>fillsize\<close> bytes of the fill value at
  \<open>0, fillsize, 2 * fillsize, ...\<close> below \<open>buffer_size\<close>; the last copy runs past the
  buffer unless \<open>fillsize\<close> divides \<open>buffer_size\<close>, and the fill value has 8 bytes.\<close>

definition fill_buffer :: "meta_entry_t \<Rightarrow> byte list option \<Rightarrow> error + byte list option" where
  "fill_buffer md buf =
     (case buf of
        None \<Rightarrow> Inr None
      | Some bs \<Rightarrow>
          if meta_fillsize md > 0
          then (if int (length (meta_fill md)) < meta_fillsize md
                   \<or> int (length bs) mod meta_fillsize md \<noteq> 0
                then Inl MemoryFault
                else Inr (Some (concat (replicate (length bs div nat (meta_fillsize md))
                                          (take (nat (meta_fillsize md)) (meta_fill md))))))
          else Inr (Some bs))"

definition numcols_of :: "meta_entry_t \<Rightarrow> int" where
  "numcols_of md =
     (if meta_ndims md = 0 then 0
      else if meta_ndims md = 1 then 1
      else if meta_ndims md \<ge> 2 then meta_dimensions md ! 1
      else 0)"

definition datatype_of :: "meta_entry_t \<Rightarrow> valType_t" where
  "datatype_of md =
     (if meta_type md = FIXED_POINT_TYPE then INTEGER
      else if meta_type md = FLOATING_POINT_TYPE then REAL
      else if meta_type md = STRING_TYPE then TEXT
      else DYNAMIC)"

text \<open>"Check if Data Address and Data Size is Valid": the exception raised, if any.
  \<open>H5_INVALID(metaData.address)\<close> compares the 64-bit address with all ones.\<close>

definition check_data :: "bool \<Rightarrow> meta_entry_t \<Rightarrow> int \<Rightarrow> int \<Rightarrow> error option" where
  "check_data errorChecking md buffer_offset buffer_size =
     (if errorChecking
      then (if meta_address md = 18446744073709551615
            then Some (RunTimeException ''data not allocated in contiguous layout'')
            else if meta_size md \<noteq> 0 \<and> meta_size md < s64 (s64 buffer_offset + buffer_size)
            then Some (RunTimeException ''read exceeds available data: %d != %d'')
            else if (meta_deflate md \<or> meta_shuffle md) \<and>
                    (meta_layout md = COMPACT_LAYOUT \<or> meta_layout md = CONTIGUOUS_LAYOUT)
            then Some (RunTimeException ''filters unsupported on non-chunked layouts'')
            else None)
      else None)"

text \<open>
  What the reads of the layout do is outside this model: \<open>read_failure\<close> is the
  exception raised while the data is fetched (by \<open>ioRequest\<close>, \<open>readBTreeV1\<close> or the
  chunk filters), if any, and \<open>load buf i\<close> is the byte that fetching leaves at
  index \<open>i\<close> of the output buffer that held \<open>buf\<close>.
\<close>

record dataset_io =
  read_failure :: "error option"
  load :: "byte list \<Rightarrow> nat \<Rightarrow> byte"

text \<open>"Read Dataset": the switch over the layout, entered only if \<open>buffer_size > 0\<close>.\<close>

definition read_layout :: "bool \<Rightarrow> dataset_io \<Rightarrow> meta_entry_t \<Rightarrow> byte list \<Rightarrow> error + byte list" where
  "read_layout errorChecking io md buf =
     (let fetched = (case read_failure io of
                       Some e \<Rightarrow> Inl e
                     | None \<Rightarrow> Inr (map (load io buf) [0 ..< length buf]))
      in case meta_layout md of
           COMPACT_LAYOUT \<Rightarrow> fetched
         | CONTIGUOUS_LAYOUT \<Rightarrow> fetched
         | CHUNKED_LAYOUT \<Rightarrow>
             if errorChecking \<and> meta_elementsize md \<noteq> meta_typesize md
             then Inl (RunTimeException
                    ''chunk element size does not match data element size: %d != %d'')
             else if errorChecking \<and> meta_chunkelements md \<le> 0
             then Inl (RunTimeException ''invalid number of chunk elements: %ld'')
             else fetched
         | UNKNOWN_LAYOUT \<Rightarrow>
             if errorChecking then Inl (RunTimeException ''invalid data layout: %d'')
             else Inr buf)"

definition readDataset ::
  "bool \<Rightarrow> dataset_io \<Rightarrow> meta_entry_t \<Rightarrow> int \<Rightarrow> int \<Rightarrow> error + dataset_info_t" where
  "readDataset errorChecking io md datasetStartRow datasetNumRows =
     (case buffer_size_of md datasetStartRow datasetNumRows of
        Inl e \<Rightarrow> Inl e
      | Inr buffer_size \<Rightarrow>
          (case fill_buffer md (new_buffer buffer_size) of
             Inl e \<Rightarrow> Inl e
           | Inr buf \<Rightarrow>
               let info = \<lparr>info_elements = tdiv buffer_size (meta_typesize md),
                           info_typesize = meta_typesize md,
                           info_datasize = buffer_size,
                           info_data = buf,
                           info_datatype = datatype_of md,
                           info_numcols = numcols_of md,
                           info_numrows = num_rows_of md datasetNumRows\<rparr>;
                   buffer_offset = u64 (row_size_of md * datasetStartRow)
               in case check_data errorChecking md buffer_offset buffer_size of
                    Some e \<Rightarrow> Inl e
                  | None \<Rightarrow>
                      (case buf of
                         None \<Rightarrow> Inr info
                       | Some bs \<Rightarrow>
                           (case read_layout errorChecking io md bs of
                              Inl e \<Rightarrow> Inl e
                            | Inr bs' \<Rightarrow> Inr (info\<lparr>info_data := Some bs'\<rparr>)))))"

section \<open>The metadata repository\<close>

text \<open>
  Modelled from the spec: \<open>StringLib::find\<close>, \<open>StringLib::match\<close> and
  \<open>StringLib::format\<close> are not part of the sources.  \<open>find_str s sub\<close> is the rest of
  \<open>s\<close> from the first occurrence of \<open>sub\<close>, \<open>str_match a b n\<close> compares the first \<open>n\<close>
  characters for equality, and formatting into a buffer of \<open>n\<close> bytes keeps at most
  \<open>n - 1\<close> characters.  A \<open>string\<close> here is the text of a C string without its
  terminator.
\<close>

fun find_str :: "string \<Rightarrow> string \<Rightarrow> string option" where
  "find_str [] sub = (if sub = [] then Some [] else None)"
| "find_str (c # cs) sub =
     (if take (length sub) (c # cs) = sub then Some (c # cs) else find_str cs sub)"

definition str_match :: "string \<Rightarrow> string \<Rightarrow> nat \<Rightarrow> bool" where
  "str_match a b n = (take n a = take n b)"

text \<open>The loop of \<open>metaGetUrl\<close> over the resource: \<open>filename_ptr\<close> ends after the last
  \<open>'/'\<close>.\<close>

fun filename_from :: "string \<Rightarrow> string \<Rightarrow> string" where
  "filename_from filename_ptr [] = filename_ptr"
| "filename_from filename_ptr (c # char_ptr) =
     (if c = CHR ''/'' then filename_from char_ptr char_ptr
      else filename_from filename_ptr char_ptr)"

definition dataset_name_of :: "string \<Rightarrow> string" where
  "dataset_name_of dataset =
     (case dataset of [] \<Rightarrow> [] | c # cs \<Rightarrow> if c = CHR ''/'' then cs else dataset)"

text \<open>\<open>max_len\<close> is \<open>MAX_META_FILENAME\<close>, a constant of \<open>H5Coro.h\<close>.  The buffer is
  cleared, the url is formatted into it, and the url is refused unless the byte at
  \<open>max_len - 2\<close> is still zero.\<close>

definition metaGetUrl :: "nat \<Rightarrow> string \<Rightarrow> string \<Rightarrow> error + string" where
  "metaGetUrl max_len resource dataset =
     (let url = take (max_len - 1)
                  (filename_from resource resource @ ''/'' @ dataset_name_of dataset)
      in if max_len - 2 < length url
         then Inl (RunTimeException ''truncated meta repository url: %s'')
         else Inr url)"

text \<open>\<open>metaGetKey\<close> adds up the buffer of \<open>max_len\<close> bytes as little-endian
  \<open>uint64_t\<close> words.\<close>

fun le_word :: "nat list \<Rightarrow> int" where
  "le_word [] = 0"
| "le_word (b # bs) = int b + 256 * le_word bs"

fun key_loop :: "nat \<Rightarrow> nat list \<Rightarrow> int \<Rightarrow> int" where
  "key_loop 0 url_ptr key_value = key_value"
| "key_loop (Suc n) url_ptr key_value =
     key_loop n (drop 8 url_ptr) (u64 (key_value + le_word (take 8 url_ptr)))"

definition metaGetKey :: "nat \<Rightarrow> string \<Rightarrow> int" where
  "metaGetKey max_len url =
     key_loop ((max_len + 7) div 8)
       (map of_char url @ replicate (max_len - length url) 0) 0"

text \<open>"Check Meta Repository": the url and key of the request, whether the repository
  has a matching entry, and the entry found under the key.\<close>

definition meta_lookup ::
  "nat \<Rightarrow> meta_entry_t table \<Rightarrow> string \<Rightarrow> string
     \<Rightarrow> error + (string \<times> int \<times> bool \<times> meta_entry_t option)" where
  "meta_lookup max_len metaRepo resource dataset =
     (case metaGetUrl max_len resource dataset of
        Inl e \<Rightarrow> Inl e
      | Inr m_url \<Rightarrow>
          let meta_key = metaGetKey max_len m_url
          in case table_find_exactly meta_key metaRepo of
               None \<Rightarrow> Inr (m_url, meta_key, False, None)
             | Some metaData \<Rightarrow>
                 Inr (m_url, meta_key, str_match (meta_url metaData) m_url max_len,
                      Some metaData))"

text \<open>"Add to Meta Repository".\<close>

definition meta_publish :: "int \<Rightarrow> int \<Rightarrow> meta_entry_t \<Rightarrow> meta_entry_t table \<Rightarrow> meta_entry_t table" where
  "meta_publish invalid_key meta_key metaData metaRepo =
     table_add meta_key metaData
       (if table_isfull metaRepo
        then table_remove (fst (table_first invalid_key metaRepo)) metaRepo
        else metaRepo)"

section \<open>The constructor of H5FileBuffer\<close>

definition parseUrl :: "string \<Rightarrow> io_driver_t \<times> string option" where
  "parseUrl url =
     (let resource = (case find_str url ''//'' of None \<Rightarrow> None | Some rptr \<Rightarrow> Some (drop 2 rptr))
      in if find_str url ''file://'' \<noteq> None then (FILE, resource)
         else if find_str url ''s3://'' \<noteq> None then (S3, resource)
         else (UNKNOWN, resource))"

text \<open>
  What lies outside the program: whether \<open>fopen\<close> of a resource succeeds, what walking
  the file from the superblock to the dataset (\<open>parseDataset\<close>, \<open>readSuperblock\<close>,
  \<open>readObjHdr\<close>) leaves in \<open>metaData\<close> or raises, and the reads of the dataset.
\<close>

record world =
  fopen_ok :: "string \<Rightarrow> bool"
  parse :: "string \<Rightarrow> string \<Rightarrow> error + meta_entry_t"
  dataset_reads :: dataset_io

definition ioOpen :: "world \<Rightarrow> io_driver_t \<Rightarrow> string \<Rightarrow> error option" where
  "ioOpen w driver resource =
     (case driver of
        FILE \<Rightarrow> if fopen_ok w resource then None
                else Some (RunTimeException ''failed to open resource'')
      | S3 \<Rightarrow> if CHR ''/'' \<in> set resource then None
              else Some (RunTimeException ''invalid S3 url: %s'')
      | UNKNOWN \<Rightarrow> None)"

text \<open>The handler of the constructor catches \<open>RunTimeException\<close> only and raises it
  again with the dataset name appended.\<close>

definition rethrow :: "string \<Rightarrow> error \<Rightarrow> error" where
  "rethrow dataset e =
     (case e of
        RunTimeException what \<Rightarrow> RunTimeException (what @ '' ('' @ dataset @ '')'')
      | BadArrayNewLength \<Rightarrow> BadArrayNewLength
      | DivideByZero \<Rightarrow> DivideByZero
      | MemoryFault \<Rightarrow> MemoryFault)"

text \<open>The constructor up to "Read Dataset": the key of the request in the repository
  and the \<open>metaData\<close> it goes on with, found in the repository or parsed from the file,
  or the exception raised.  \<open>max_len\<close> is the constant \<open>MAX_META_FILENAME\<close>.\<close>

definition locate_metadata ::
  "nat \<Rightarrow> world \<Rightarrow> meta_entry_t table \<Rightarrow> string \<Rightarrow> string \<Rightarrow> error + (int \<times> meta_entry_t)" where
  "locate_metadata max_len w metaRepo url dataset =
     (case parseUrl url of
        (UNKNOWN, r) \<Rightarrow> Inl (RunTimeException ''Invalid url: %s'')
      | (driver, None) \<Rightarrow> Inl MemoryFault
      | (driver, Some resource) \<Rightarrow>
          (case ioOpen w driver resource of
             Some e \<Rightarrow> Inl e
           | None \<Rightarrow>
               (case meta_lookup max_len metaRepo resource dataset of
                  Inl e \<Rightarrow> Inl e
                | Inr (m_url, meta_key, meta_found, found) \<Rightarrow>
                    (case (meta_found, found) of
                       (True, Some metaData) \<Rightarrow> Inr (meta_key, metaData)
                     | other \<Rightarrow>
                         (case parse w resource dataset of
                            Inl e \<Rightarrow> Inl (rethrow dataset e)
                          | Inr metaData \<Rightarrow> Inr (meta_key, metaData\<lparr>meta_url := m_url\<rparr>))))))"

text \<open>The constructor yields the \<open>data_info\<close> it filled, or the exception it raised, and
  the repository it leaves.  \<open>invalid_key\<close> is the constant \<open>INVALID_KEY\<close>.\<close>

definition H5FileBuffer ::
  "nat \<Rightarrow> int \<Rightarrow> world \<Rightarrow> meta_entry_t table \<Rightarrow> string \<Rightarrow> string \<Rightarrow> int \<Rightarrow> int \<Rightarrow> bool
     \<Rightarrow> (error + dataset_info_t) \<times> meta_entry_t table" where
  "H5FileBuffer max_len invalid_key w metaRepo url dataset startrow numrows error_checking =
     (case locate_metadata max_len w metaRepo url dataset of
        Inl e \<Rightarrow> (Inl e, metaRepo)
      | Inr (meta_key, metaData) \<Rightarrow>
          (case readDataset error_checking (dataset_reads w) metaData startrow numrows of
             Inl e \<Rightarrow> (Inl (rethrow dataset e), metaRepo)
           | Inr info \<Rightarrow>
               (Inr info, meta_publish invalid_key meta_key metaData metaRepo)))"

section \<open>H5Coro::traverse\<close>

text \<open>
  \<open>status\<close> starts \<open>true\<close>; the handler catches \<open>std::exception\<close>, which the exceptions
  of the constructor derive from, logs the failure and falls through to
  \<open>return status\<close>.  A fault that is not an exception ends the program instead.
\<close>

definition traverse ::
  "nat \<Rightarrow> int \<Rightarrow> world \<Rightarrow> meta_entry_t table \<Rightarrow> string \<Rightarrow> string \<Rightarrow> error + bool" where
  "traverse max_len invalid_key w metaRepo url start_group =
     (let status = True
      in case fst (H5FileBuffer max_len invalid_key w metaRepo url start_group 0 0 True) of
           Inr data_info \<Rightarrow> Inr status
         | Inl (RunTimeException what) \<Rightarrow> Inr status
         | Inl BadArrayNewLength \<Rightarrow> Inr status
         | Inl DivideByZero \<Rightarrow> Inl DivideByZero
         | Inl MemoryFault \<Rightarrow> Inl MemoryFault)"

section \<open>H5Coro::read\<close>

text \<open>"Perform Column Translation".  \<open>tbuf_size\<close>, \<open>tbuf_row_size\<close>, \<open>tbuf_col_size\<close>,
  \<open>tbuf_offset\<close> and \<open>data_offset\<close> are \<open>int\<close>, \<open>col\<close> is \<open>long\<close>.  One step of the loop
  copies \<open>tbuf_col_size\<close> bytes from \<open>data_offset\<close> of the data to \<open>tbuf_offset\<close> of the
  column buffer.\<close>

definition copy_column ::
  "int \<Rightarrow> int \<Rightarrow> int \<Rightarrow> byte list \<Rightarrow> byte list \<Rightarrow> int \<Rightarrow> error + byte list" where
  "copy_column col tbuf_row_size tbuf_col_size data tbuf row =
     (let tbuf_offset = s32 (row * tbuf_col_size);
          data_offset = s32 (s64 (s32 (row * tbuf_row_size) + s64 (col * tbuf_col_size)))
      in if 0 \<le> tbuf_col_size \<and> 0 \<le> tbuf_offset \<and> 0 \<le> data_offset \<and>
            tbuf_offset + tbuf_col_size \<le> int (length tbuf) \<and>
            data_offset + tbuf_col_size \<le> int (length data)
         then Inr (take (nat tbuf_offset) tbuf
                   @ take (nat tbuf_col_size) (drop (nat data_offset) data)
                   @ drop (nat (tbuf_offset + tbuf_col_size)) tbuf)
         else Inl MemoryFault)"

fun copy_columns ::
  "int \<Rightarrow> int \<Rightarrow> int \<Rightarrow> byte list \<Rightarrow> byte list \<Rightarrow> int list \<Rightarrow> error + byte list" where
  "copy_columns col tbuf_row_size tbuf_col_size data tbuf [] = Inr tbuf"
| "copy_columns col tbuf_row_size tbuf_col_size data tbuf (row # rows) =
     (case copy_column col tbuf_row_size tbuf_col_size data tbuf row of
        Inl e \<Rightarrow> Inl e
      | Inr tbuf' \<Rightarrow> copy_columns col tbuf_row_size tbuf_col_size data tbuf' rows)"

definition column_translation :: "int \<Rightarrow> dataset_info_t \<Rightarrow> byte list \<Rightarrow> error + dataset_info_t" where
  "column_translation col info data =
     (if info_numcols info > 1
      then
        let tbuf_size = s32 (tdiv (info_datasize info) (info_numcols info))
        in if tbuf_size < 0 then Inl BadArrayNewLength
           else if info_numrows info = 0 then Inl DivideByZero
           else
             let tbuf_row_size = s32 (tdiv (info_datasize info) (info_numrows info));
                 tbuf_col_size = s32 (tdiv tbuf_row_size (info_numcols info))
             in case copy_columns col tbuf_row_size tbuf_col_size data
                       (replicate (nat tbuf_size) 0) [0 .. info_numrows info - 1] of
                  Inl e \<Rightarrow> Inl e
                | Inr tbuf \<Rightarrow>
                    Inr (info\<lparr>info_data := Some tbuf, info_datasize := tbuf_size,
                             info_elements := tdiv (info_elements info) (info_numcols info)\<rparr>)
      else Inr info)"

text \<open>
  The two type translations.  The element loops read \<open>elements\<close> values of the native
  width from the data and store \<open>int\<close> or \<open>double\<close> values; the buffers are byte
  lists, little-endian.  The floating point conversions are parameters.
\<close>

record fp_conversions =
  float_to_int :: "byte list \<Rightarrow> int"
  double_to_int :: "byte list \<Rightarrow> int"
  float_to_double :: "byte list \<Rightarrow> byte list"
  uint_to_double :: "int \<Rightarrow> byte list"

fun le_bytes :: "nat \<Rightarrow> int \<Rightarrow> byte list" where
  "le_bytes 0 v = []"
| "le_bytes (Suc n) v = nat (v mod 256) # le_bytes n (v div 256)"

definition translate_elements ::
  "(byte list \<Rightarrow> byte list) \<Rightarrow> nat \<Rightarrow> int \<Rightarrow> byte list \<Rightarrow> error + byte list" where
  "translate_elements conv width elements data =
     (if elements < 0 then Inl BadArrayNewLength
      else if int (length data) < elements * int width then Inl MemoryFault
      else Inr (concat (map (\<lambda>i. conv (take width (drop (i * width) data)))
                           [0 ..< nat elements])))"

definition integer_translation ::
  "fp_conversions \<Rightarrow> dataset_info_t \<Rightarrow> byte list \<Rightarrow> error + (dataset_info_t \<times> bool)" where
  "integer_translation fp info data =
     (let dt = info_datatype info; ts = info_typesize info; n = info_elements info;
          store = (\<lambda>r. case r of
                    Inl e \<Rightarrow> Inl e
                  | Inr tbuf \<Rightarrow> Inr (info\<lparr>info_data := Some tbuf, info_datasize := 4 * n\<rparr>, True))
      in if dt = REAL \<and> ts = 4
         then store (translate_elements (\<lambda>b. le_bytes 4 (float_to_int fp b)) 4 n data)
         else if dt = REAL \<and> ts = 8
         then store (translate_elements (\<lambda>b. le_bytes 4 (double_to_int fp b)) 8 n data)
         else if dt = INTEGER \<and> ts = 1
         then store (translate_elements (\<lambda>b. le_bytes 4 (le_word b)) 1 n data)
         else if dt = INTEGER \<and> ts = 2
         then store (translate_elements (\<lambda>b. le_bytes 4 (le_word b)) 2 n data)
         else if dt = INTEGER \<and> ts = 4
         then store (translate_elements (\<lambda>b. le_bytes 4 (le_word b)) 4 n data)
         else if dt = INTEGER \<and> ts = 8
         then store (translate_elements (\<lambda>b. le_bytes 4 (le_word b)) 8 n data)
         else if n < 0 then Inl BadArrayNewLength
         else Inr (info\<lparr>info_data := Some (replicate (nat (4 * n)) 0),
                        info_datasize := 4 * n\<rparr>, False))"

definition real_translation ::
  "fp_conversions \<Rightarrow> dataset_info_t \<Rightarrow> byte list \<Rightarrow> error + (dataset_info_t \<times> bool)" where
  "real_translation fp info data =
     (let dt = info_datatype info; ts = info_typesize info; n = info_elements info;
          store = (\<lambda>r. case r of
                    Inl e \<Rightarrow> Inl e
                  | Inr tbuf \<Rightarrow> Inr (info\<lparr>info_data := Some tbuf, info_datasize := 8 * n\<rparr>, True))
      in if dt = REAL \<and> ts = 4
         then store (translate_elements (float_to_double fp) 4 n data)
         else if dt = REAL \<and> ts = 8
         then store (translate_elements (\<lambda>b. b) 8 n data)
         else if dt = INTEGER \<and> ts = 1
         then store (translate_elements (\<lambda>b. uint_to_double fp (le_word b)) 1 n data)
         else if dt = INTEGER \<and> ts = 2
         then store (translate_elements (\<lambda>b. uint_to_double fp (le_word b)) 2 n data)
         else if dt = INTEGER \<and> ts = 4
         then store (translate_elements (\<lambda>b. uint_to_double fp (le_word b)) 4 n data)
         else if dt = INTEGER \<and> ts = 8
         then store (translate_elements (\<lambda>b. uint_to_double fp (le_word b)) 8 n data)
         else if n < 0 then Inl BadArrayNewLength
         else Inr (info\<lparr>info_data := Some (replicate (nat (8 * n)) 0),
                        info_datasize := 8 * n\<rparr>, False))"

definition type_translation ::
  "fp_conversions \<Rightarrow> valType_t \<Rightarrow> dataset_info_t \<Rightarrow> byte list \<Rightarrow> error + (dataset_info_t \<times> bool)" where
  "type_translation fp valtype info data =
     (case valtype of
        INTEGER \<Rightarrow> integer_translation fp info data
      | REAL \<Rightarrow> real_translation fp info data
      | TEXT \<Rightarrow> Inr (info, True)
      | DYNAMIC \<Rightarrow> Inr (info, True))"

text \<open>What the block under \<open>if(info.data)\<close> does with the \<open>info\<close> of the constructor.\<close>

definition translate_info ::
  "fp_conversions \<Rightarrow> valType_t \<Rightarrow> int \<Rightarrow> dataset_info_t \<Rightarrow> error + dataset_info_t" where
  "translate_info fp valtype col info =
     (case info_data info of
        None \<Rightarrow> Inl (RunTimeException ''failed to read dataset: %s'')
      | Some data \<Rightarrow>
          (case column_translation col info data of
             Inl e \<Rightarrow> Inl e
           | Inr info1 \<Rightarrow>
               (case info_data info1 of
                  None \<Rightarrow> Inl MemoryFault
                | Some data1 \<Rightarrow>
                    (case type_translation fp valtype info1 data1 of
                       Inl e \<Rightarrow> Inl e
                     | Inr (info2, data_valid) \<Rightarrow>
                         if data_valid then Inr info2
                         else Inl (RunTimeException
                                ''data translation failed for %s: [%d,%d] %d --> %d'')))))"

text \<open>\<open>H5Coro::read\<close> constructs the \<open>H5FileBuffer\<close> with error checking on, and an
  exception of the constructor leaves the function.\<close>

definition H5Coro_read ::
  "nat \<Rightarrow> int \<Rightarrow> fp_conversions \<Rightarrow> world \<Rightarrow> meta_entry_t table \<Rightarrow> string \<Rightarrow> string \<Rightarrow> valType_t
     \<Rightarrow> int \<Rightarrow> int \<Rightarrow> int \<Rightarrow> (error + dataset_info_t) \<times> meta_entry_t table" where
  "H5Coro_read max_len invalid_key fp w metaRepo url datasetname valtype col startrow numrows =
     (case H5FileBuffer max_len invalid_key w metaRepo url datasetname startrow numrows True of
        (Inl e, repo) \<Rightarrow> (Inl e, repo)
      | (Inr info, repo) \<Rightarrow> (translate_info fp valtype col info, repo))"

section \<open>The chunk location of readBTreeV1\<close>




section \<open>The quantities of the specification\<close>

text \<open>The row size as the specification gives it: the type size times the product of
  the dimensions after the first.\<close>

definition spec_row_size :: "meta_entry_t \<Rightarrow> int" where
  "spec_row_size md =
     meta_typesize md * prod_list (map (\<lambda>d. meta_dimensions md ! d) [1 ..< nat (meta_ndims md)])"

section \<open>Sample data for the dataset reader\<close>

text \<open>A contiguous two-dimensional dataset of 100 rows of 4 unsigned 32-bit integers, and
  reads that leave the byte \<open>i mod 256\<close> at index \<open>i\<close> of the output buffer.\<close>

definition example_meta :: meta_entry_t where
  "example_meta = \<lparr>meta_url = ''granule.h5/grid'', meta_type = FIXED_POINT_TYPE,
     meta_typesize = 4, meta_fill = [0, 0, 0, 0, 0, 0, 0, 0], meta_fillsize = 0,
     meta_ndims = 2, meta_dimensions = [100, 4], meta_chunkelements = 0,
     meta_elementsize = 0, meta_offsetsize = 8, meta_lengthsize = 8,
     meta_layout = CONTIGUOUS_LAYOUT, meta_address = 2048, meta_size = 1600,
     meta_deflate = False, meta_shuffle = False\<rparr>"

definition example_io :: dataset_io where
  "example_io = \<lparr>read_failure = None, load = (\<lambda>buf i. i mod 256)\<rparr>"

text \<open>A world in which every file opens and parsing finds the given metadata, an empty
  repository, and a dataset of no rows whose storage was never allocated (its address
  is the undefined address).\<close>

definition world_of :: "meta_entry_t \<Rightarrow> world" where
  "world_of md = \<lparr>fopen_ok = (\<lambda>resource. True), parse = (\<lambda>resource dataset. Inr md),
     dataset_reads = example_io\<rparr>"

definition empty_repo :: "meta_entry_t table" where
  "empty_repo = \<lparr>items = [], capacity = 8, hash_mask = 0\<rparr>"

definition empty_meta :: meta_entry_t where
  "empty_meta = example_meta\<lparr>meta_dimensions := [0, 4],
     meta_address := 18446744073709551615, meta_size := 0\<rparr>"

text \<open>Floating point conversions for reads that convert no floating point value.\<close>

definition no_fp :: fp_conversions where
  "no_fp = \<lparr>float_to_int = (\<lambda>b. 0), double_to_int = (\<lambda>b. 0),
     float_to_double = (\<lambda>b. [0, 0, 0, 0, 0, 0, 0, 0]),
     uint_to_double = (\<lambda>v. [0, 0, 0, 0, 0, 0, 0, 0])\<rparr>"




section \<open>Facts about the machine integers\<close>

lemma u64_id: "is_u64 x \<Longrightarrow> u64 x = x"
  by (simp add: u64_def is_u64_def)

lemma u64_le: "0 \<le> x \<Longrightarrow> u64 x \<le> x"
  by (simp add: u64_def zmod_le_nonneg_dividend)

lemma s64_id: "is_s64 x \<Longrightarrow> s64 x = x"
  by (simp add: s64_def is_s64_def)

section \<open>Properties of the ranged I/O cache\<close>

lemma ioCheckCache_SomeD:
  assumes "ioCheckCache size' pos cache line_mask = Some e"
  shows "entry_pos e \<le> pos \<and> u64 (pos + size') \<le> u64 (entry_pos e + entry_size e)"
  using assms
  by (auto simp: ioCheckCache_def Let_def split: option.splits if_splits)

lemma cache_probe_SomeD:
  assumes "cache_probe cfg size' pos s = Some e"
  shows "entry_pos e \<le> pos \<and> u64 (pos + size') \<le> u64 (entry_pos e + entry_size e)"
  using assms
  by (auto simp: cache_probe_def split: option.splits dest: ioCheckCache_SomeD)

lemma contains_int:
  assumes "entry_pos e \<le> pos \<and> u64 (pos + size') \<le> u64 (entry_pos e + entry_size e)"
    and "is_u64 (pos + size')"
    and "0 \<le> entry_pos e" and "0 \<le> entry_size e"
  shows "pos + size' \<le> entry_pos e + entry_size e"
proof -
  have "u64 (pos + size') = pos + size'" using assms(2) by (rule u64_id)
  moreover have "u64 (entry_pos e + entry_size e) \<le> entry_pos e + entry_size e"
    using assms(3,4) by (intro u64_le) simp
  ultimately show ?thesis using assms(1) by linarith
qed

lemma ioRequest_hit:
  assumes "cache_probe cfg size' pos s = Some e" and "entry_data e \<noteq> 0"
  shows "ioRequest cfg b size' pos hint s =
           (Inr \<lparr>res_buffer = entry_data e, res_offset = s64 (pos - entry_pos e),
                  res_cached = False, res_pos = u64 (pos + size')\<rparr>, s)"
  using assms by (simp add: ioRequest_def)

lemma ioRequest_no_probe:
  assumes "cache_probe cfg size' pos s = None"
  shows "ioRequest cfg b size' pos hint s = ioRequest_miss cfg b size' pos hint s"
  using assms by (simp add: ioRequest_def)

lemma example_check:
  "ioCheckCache 10 20 (l1 example_state) 65535 = Some example_entry"
  by (simp add: ioCheckCache_def example_state_def example_entry_def table_find_def
        table_hash_def u64_def nearer_def)

lemma example_probe_hit:
  "cache_probe example_config 10 20 example_state = Some example_entry"
  by (simp add: cache_probe_def example_config_def ioCheckCache_def example_state_def
        example_entry_def table_find_def table_hash_def u64_def nearer_def)

lemma example_probe_miss:
  "cache_probe example_config 8 70000 example_state = None"
  by (simp add: cache_probe_def example_config_def ioCheckCache_def example_state_def
        example_entry_def table_find_def table_hash_def u64_def nearer_def)

lemma example_read: "ioRead example_backend (max 8 0) 70000 = Inr 8"
  by (simp add: ioRead_def example_backend_def)

text \<open>
  Claim C1.  Whenever \<open>ioCheckCache\<close> reports a hit with entry \<open>e\<close>, the test it made
  holds: \<open>e.pos \<le> pos\<close> and \<open>pos + size \<le> e.pos + e.size\<close> in the 64-bit unsigned
  arithmetic of the source, and, for a requested range that lies inside the 64-bit
  address space and an entry of non-negative position and size, also as integers.
  Consequently the buffer \<open>ioRequest\<close> returns on a hit is the entry's buffer at offset
  \<open>pos - e.pos\<close>, and the \<open>size\<close> bytes from that offset lie inside the \<open>e.size\<close> bytes
  of the entry.
\<close>

theorem cache_hit_contains_request:
  "(ioCheckCache size' pos cache line_mask = Some e \<longrightarrow>
      entry_pos e \<le> pos \<and> u64 (pos + size') \<le> u64 (entry_pos e + entry_size e) \<and>
      (is_u64 (pos + size') \<and> 0 \<le> entry_pos e \<and> 0 \<le> entry_size e \<longrightarrow>
         pos + size' \<le> entry_pos e + entry_size e)) \<and>
   (cache_probe cfg size' pos s = Some e \<and> entry_data e \<noteq> 0 \<and> 0 \<le> size' \<and>
    is_u64 (pos + size') \<and> 0 \<le> entry_pos e \<and> 0 \<le> entry_size e \<and> is_s64 (entry_size e) \<longrightarrow>
      (\<exists>r. ioRequest cfg b size' pos hint s = (Inr r, s) \<and> res_buffer r = entry_data e \<and>
           res_offset r = pos - entry_pos e \<and> 0 \<le> res_offset r \<and>
           res_offset r + size' \<le> entry_size e))"
proof (intro conjI impI)
  assume h: "ioCheckCache size' pos cache line_mask = Some e"
  show "entry_pos e \<le> pos" using ioCheckCache_SomeD[OF h] by simp
  show "u64 (pos + size') \<le> u64 (entry_pos e + entry_size e)"
    using ioCheckCache_SomeD[OF h] by simp
  assume "is_u64 (pos + size') \<and> 0 \<le> entry_pos e \<and> 0 \<le> entry_size e"
  then show "pos + size' \<le> entry_pos e + entry_size e"
    using contains_int[OF ioCheckCache_SomeD[OF h]] by simp
next
  assume a: "cache_probe cfg size' pos s = Some e \<and> entry_data e \<noteq> 0 \<and> 0 \<le> size' \<and>
    is_u64 (pos + size') \<and> 0 \<le> entry_pos e \<and> 0 \<le> entry_size e \<and> is_s64 (entry_size e)"
  then have c: "entry_pos e \<le> pos \<and> u64 (pos + size') \<le> u64 (entry_pos e + entry_size e)"
    using cache_probe_SomeD by blast
  have le: "pos + size' \<le> entry_pos e + entry_size e"
    using contains_int[OF c] a by simp
  have "is_s64 (pos - entry_pos e)"
    using c le a by (simp add: is_s64_def)
  then have off: "s64 (pos - entry_pos e) = pos - entry_pos e" by (rule s64_id)
  show "\<exists>r. ioRequest cfg b size' pos hint s = (Inr r, s) \<and> res_buffer r = entry_data e \<and>
           res_offset r = pos - entry_pos e \<and> 0 \<le> res_offset r \<and>
           res_offset r + size' \<le> entry_size e"
    using ioRequest_hit[of cfg size' pos s e b hint] a off c le by simp
qed

theorem cache_hit_contains_request_witness:
  "ioCheckCache 10 20 (l1 example_state) 65535 = Some example_entry \<and>
   entry_pos example_entry \<le> 20 \<and> 20 + 10 \<le> entry_pos example_entry + entry_size example_entry \<and>
   (\<exists>r. ioRequest example_config example_backend 10 20 0 example_state = (Inr r, example_state) \<and>
        res_buffer r = entry_data example_entry \<and> res_offset r = 20 - entry_pos example_entry \<and>
        res_offset r + 10 \<le> entry_size example_entry)"
  using cache_hit_contains_request[of 10 20 "l1 example_state" 65535 example_entry
          example_config example_state example_backend 0] example_check example_probe_hit
  by (auto simp add: is_u64_def is_s64_def example_entry_def)

lemma miss_reads:
  assumes "0 \<le> max size' hint"
  shows "backend_reads (snd (ioRequest_miss cfg b size' pos hint s)) =
           backend_reads s @ [(pos, max size' hint)]"
  using assms
  by (auto simp: ioRequest_miss_def Let_def split: sum.splits prod.splits)

lemma miss_outcome_Inr:
  assumes "0 \<le> max size' hint" and "ioRead b (max size' hint) pos = Inr n"
  shows "isl (fst (ioRequest_miss cfg b size' pos hint s)) = (n < size')"
  using assms
  by (auto simp: ioRequest_miss_def Let_def split: sum.splits prod.splits)

lemma miss_outcome_Inl:
  assumes "0 \<le> max size' hint" and "ioRead b (max size' hint) pos = Inl x"
  shows "fst (ioRequest_miss cfg b size' pos hint s) = Inl x"
  using assms
  by (auto simp: ioRequest_miss_def Let_def split: sum.splits prod.splits)

text \<open>
  Claim C4.  On a cache miss, a request of a non-negative \<open>size\<close> calls \<open>ioRead\<close> exactly
  once more, for \<open>max size hint\<close> bytes at \<open>pos\<close>; when the backend returns a byte count
  \<open>n\<close> the request raises an error if and only if \<open>n < size\<close> (a failure of the
  backend's own seek is passed on).  On a cache hit no backend read is issued and no
  error is raised.
\<close>

theorem ioRequest_backend_read:
  "(cache_probe cfg size' pos s = None \<and> 0 \<le> size' \<longrightarrow>
      backend_reads (snd (ioRequest cfg b size' pos hint s)) =
        backend_reads s @ [(pos, max size' hint)] \<and>
      (\<forall>n. ioRead b (max size' hint) pos = Inr n \<longrightarrow>
           isl (fst (ioRequest cfg b size' pos hint s)) = (n < size')) \<and>
      (\<forall>x. ioRead b (max size' hint) pos = Inl x \<longrightarrow>
           fst (ioRequest cfg b size' pos hint s) = Inl x)) \<and>
   (cache_probe cfg size' pos s = Some e \<and> entry_data e \<noteq> 0 \<longrightarrow>
      backend_reads (snd (ioRequest cfg b size' pos hint s)) = backend_reads s \<and>
      \<not> isl (fst (ioRequest cfg b size' pos hint s)))"
proof (intro conjI impI allI)
  assume a: "cache_probe cfg size' pos s = None \<and> 0 \<le> size'"
  then have m: "0 \<le> max size' hint" by (simp add: max_def)
  have eq: "ioRequest cfg b size' pos hint s = ioRequest_miss cfg b size' pos hint s"
    using a by (simp add: ioRequest_no_probe)
  show "backend_reads (snd (ioRequest cfg b size' pos hint s)) =
        backend_reads s @ [(pos, max size' hint)]"
    unfolding eq by (rule miss_reads[OF m])
  { fix n assume "ioRead b (max size' hint) pos = Inr n"
    then show "isl (fst (ioRequest cfg b size' pos hint s)) = (n < size')"
      unfolding eq by (rule miss_outcome_Inr[OF m]) }
  { fix x assume "ioRead b (max size' hint) pos = Inl x"
    then show "fst (ioRequest cfg b size' pos hint s) = Inl x"
      unfolding eq by (rule miss_outcome_Inl[OF m]) }
next
  assume a: "cache_probe cfg size' pos s = Some e \<and> entry_data e \<noteq> 0"
  then have eq: "ioRequest cfg b size' pos hint s =
           (Inr \<lparr>res_buffer = entry_data e, res_offset = s64 (pos - entry_pos e),
                  res_cached = False, res_pos = u64 (pos + size')\<rparr>, s)"
    by (simp add: ioRequest_hit)
  show "backend_reads (snd (ioRequest cfg b size' pos hint s)) = backend_reads s"
    unfolding eq by simp
  show "\<not> isl (fst (ioRequest cfg b size' pos hint s))"
    unfolding eq by simp
qed

theorem ioRequest_backend_read_witness:
  "cache_probe example_config 8 70000 example_state = None \<and>
   backend_reads (snd (ioRequest example_config example_backend 8 70000 0 example_state)) =
     [(70000, 8)] \<and>
   ioRead example_backend (max 8 0) 70000 = Inr 8 \<and>
   \<not> isl (fst (ioRequest example_config example_backend 8 70000 0 example_state)) \<and>
   cache_probe example_config 10 20 example_state = Some example_entry \<and>
   backend_reads (snd (ioRequest example_config example_backend 10 20 0 example_state)) = [] \<and>
   \<not> isl (fst (ioRequest example_config example_backend 10 20 0 example_state))"
  using ioRequest_backend_read[of example_config 8 70000 example_state example_backend 0 undefined]
        ioRequest_backend_read[of example_config 10 20 example_state example_backend 0
           example_entry]
        example_probe_hit example_probe_miss example_read
  by (simp add: example_state_def example_entry_def)

lemma table_add_bounded: "bounded t \<Longrightarrow> bounded (table_add k e t)"
  by (simp add: bounded_def table_add_def Let_def)

lemma table_remove_bounded: "bounded t \<Longrightarrow> bounded (table_remove k t)"
  unfolding bounded_def table_remove_def
  by (simp, rule order_trans[OF length_filter_le])

lemma ensure_room_bounded: "bounded t \<Longrightarrow> bounded (fst (ensure_room ik t fr))"
  by (simp add: ensure_room_def table_remove_bounded split: prod.splits)

lemma miss_bounded:
  assumes "bounded (l1 s) \<and> bounded (l2 s)"
  shows "bounded (l1 (snd (ioRequest_miss cfg b size' pos hint s))) \<and>
         bounded (l2 (snd (ioRequest_miss cfg b size' pos hint s)))"
proof -
  have a: "\<And>ik fr. bounded (fst (ensure_room ik (l1 s) fr))"
    using assms by (simp add: ensure_room_bounded)
  have b: "\<And>ik fr. bounded (fst (ensure_room ik (l2 s) fr))"
    using assms by (simp add: ensure_room_bounded)
  show ?thesis
    using assms a b
    by (auto simp: ioRequest_miss_def Let_def table_add_bounded
             split: sum.splits prod.splits dest!: arg_cong[where f = fst])
qed

lemma ioRequest_bounded:
  assumes "bounded (l1 s) \<and> bounded (l2 s)"
  shows "bounded (l1 (snd (ioRequest cfg b size' pos hint s))) \<and>
         bounded (l2 (snd (ioRequest cfg b size' pos hint s)))"
  using assms miss_bounded[OF assms, of cfg b size' pos hint]
  by (simp add: ioRequest_def Let_def split: option.splits prod.splits)

lemma filter_fst_ne:
  "k0 \<notin> fst ` set rest \<Longrightarrow> filter (\<lambda>(k, e). k \<noteq> k0) rest = rest"
  by (induction rest) auto

lemma ensure_room_full:
  assumes "table_isfull c" and "items c = (k0, e0) # rest"
    and "distinct (map fst (items c))" and "k0 \<noteq> ik"
  shows "ensure_room ik c fr = (c\<lparr>items := rest\<rparr>, fr @ [entry_data e0])"
  using assms
  by (simp add: ensure_room_def table_first_def table_remove_def filter_fst_ne)

lemma miss_insert_l1:
  assumes "0 \<le> size'" and "ioRead b (max size' hint) pos = Inr n" and "size' \<le> n"
    and "n \<le> IO_CACHE_L1_LINESIZE cfg"
    and "ensure_room (INVALID_KEY cfg) (l1 s) (freed s) = (c', fr')"
  shows "l1 (snd (ioRequest_miss cfg b size' pos hint s)) =
           table_add pos \<lparr>entry_data = next_addr s, entry_pos = pos, entry_size = n\<rparr> c' \<and>
         l2 (snd (ioRequest_miss cfg b size' pos hint s)) = l2 s \<and>
         freed (snd (ioRequest_miss cfg b size' pos hint s)) = fr'"
  using assms by (auto simp: ioRequest_miss_def Let_def)

lemma miss_insert_l2:
  assumes "0 \<le> size'" and "ioRead b (max size' hint) pos = Inr n" and "size' \<le> n"
    and "\<not> n \<le> IO_CACHE_L1_LINESIZE cfg"
    and "ensure_room (INVALID_KEY cfg) (l2 s) (freed s) = (c', fr')"
  shows "l2 (snd (ioRequest_miss cfg b size' pos hint s)) =
           table_add pos \<lparr>entry_data = next_addr s, entry_pos = pos, entry_size = n\<rparr> c' \<and>
         l1 (snd (ioRequest_miss cfg b size' pos hint s)) = l1 s \<and>
         freed (snd (ioRequest_miss cfg b size' pos hint s)) = fr'"
  using assms by (auto simp: ioRequest_miss_def Let_def)

text \<open>
  Claim C7.  No request makes a cache hold more entries than its capacity.  When a miss
  fetches \<open>n \<ge> size\<close> bytes and the selected cache (L1 if \<open>n\<close> is at most the L1 line
  size, else L2) is full, with distinct keys of which the oldest is not the reserved key
  \<open>INVALID_KEY\<close>, then the block that makes room removes exactly the oldest entry
  \<open>(k0, e0)\<close> and passes its buffer to \<open>delete []\<close>, and only then is the new entry
  added: the selected cache ends as the table without its oldest entry plus the new
  entry, and the freed addresses grow by exactly the buffer of \<open>e0\<close>.
\<close>

theorem ioRequest_evicts_oldest:
  "(bounded (l1 s) \<and> bounded (l2 s) \<longrightarrow>
      bounded (l1 (snd (ioRequest cfg b size' pos hint s))) \<and>
      bounded (l2 (snd (ioRequest cfg b size' pos hint s)))) \<and>
   (cache_probe cfg size' pos s = None \<and> 0 \<le> size' \<and>
    ioRead b (max size' hint) pos = Inr n \<and> size' \<le> n \<and>
    table_isfull (selected cfg n s) \<and> items (selected cfg n s) = (k0, e0) # rest \<and>
    distinct (map fst (items (selected cfg n s))) \<and> k0 \<noteq> INVALID_KEY cfg \<longrightarrow>
      ensure_room (INVALID_KEY cfg) (selected cfg n s) (freed s) =
        ((selected cfg n s)\<lparr>items := rest\<rparr>, freed s @ [entry_data e0]) \<and>
      freed (snd (ioRequest cfg b size' pos hint s)) = freed s @ [entry_data e0] \<and>
      selected cfg n (snd (ioRequest cfg b size' pos hint s)) =
        table_add pos \<lparr>entry_data = next_addr s, entry_pos = pos, entry_size = n\<rparr>
          ((selected cfg n s)\<lparr>items := rest\<rparr>))"
proof (intro conjI impI)
  assume "bounded (l1 s) \<and> bounded (l2 s)"
  then show "bounded (l1 (snd (ioRequest cfg b size' pos hint s)))"
    and "bounded (l2 (snd (ioRequest cfg b size' pos hint s)))"
    using ioRequest_bounded by blast+
next
  assume a: "cache_probe cfg size' pos s = None \<and> 0 \<le> size' \<and>
    ioRead b (max size' hint) pos = Inr n \<and> size' \<le> n \<and>
    table_isfull (selected cfg n s) \<and> items (selected cfg n s) = (k0, e0) # rest \<and>
    distinct (map fst (items (selected cfg n s))) \<and> k0 \<noteq> INVALID_KEY cfg"
  have eq: "ioRequest cfg b size' pos hint s = ioRequest_miss cfg b size' pos hint s"
    using a by (simp add: ioRequest_no_probe)
  have er: "ensure_room (INVALID_KEY cfg) (selected cfg n s) (freed s) =
        ((selected cfg n s)\<lparr>items := rest\<rparr>, freed s @ [entry_data e0])"
  proof (rule ensure_room_full)
    show "table_isfull (selected cfg n s)" using a by simp
    show "items (selected cfg n s) = (k0, e0) # rest" using a by simp
    show "distinct (map fst (items (selected cfg n s)))" using a by blast
    show "k0 \<noteq> INVALID_KEY cfg" using a by simp
  qed
  show "ensure_room (INVALID_KEY cfg) (selected cfg n s) (freed s) =
        ((selected cfg n s)\<lparr>items := rest\<rparr>, freed s @ [entry_data e0])" by (rule er)
  show "freed (snd (ioRequest cfg b size' pos hint s)) = freed s @ [entry_data e0]"
  proof (cases "n \<le> IO_CACHE_L1_LINESIZE cfg")
    case True
    then show ?thesis unfolding eq
      using miss_insert_l1[of size' b hint pos n cfg s] a er by (simp add: selected_def)
  next
    case False
    then show ?thesis unfolding eq
      using miss_insert_l2[of size' b hint pos n cfg s] a er by (simp add: selected_def)
  qed
  show "selected cfg n (snd (ioRequest cfg b size' pos hint s)) =
        table_add pos \<lparr>entry_data = next_addr s, entry_pos = pos, entry_size = n\<rparr>
          ((selected cfg n s)\<lparr>items := rest\<rparr>)"
  proof (cases "n \<le> IO_CACHE_L1_LINESIZE cfg")
    case True
    then show ?thesis unfolding eq
      using miss_insert_l1[of size' b hint pos n cfg s] a er by (simp add: selected_def)
  next
    case False
    then show ?thesis unfolding eq
      using miss_insert_l2[of size' b hint pos n cfg s] a er by (simp add: selected_def)
  qed
qed

theorem ioRequest_evicts_oldest_witness:
  "bounded (l1 example_state) \<and> bounded (l2 example_state) \<and>
   bounded (l1 (snd (ioRequest example_config example_backend 8 70000 0 example_state))) \<and>
   bounded (l2 (snd (ioRequest example_config example_backend 8 70000 0 example_state))) \<and>
   table_isfull (selected example_config 8 example_state) \<and>
   freed (snd (ioRequest example_config example_backend 8 70000 0 example_state)) =
     [entry_data example_entry] \<and>
   items (l1 (snd (ioRequest example_config example_backend 8 70000 0 example_state))) =
     [(4096, \<lparr>entry_data = 2, entry_pos = 4096, entry_size = 64\<rparr>),
      (70000, \<lparr>entry_data = 3, entry_pos = 70000, entry_size = 8\<rparr>)]"
  using ioRequest_evicts_oldest[of example_state example_config example_backend 8 70000 0 8
          0 example_entry "[(4096, \<lparr>entry_data = 2, entry_pos = 4096, entry_size = 64\<rparr>)]"]
        example_probe_miss example_read
  by (simp add: example_state_def example_config_def example_entry_def bounded_def
        selected_def table_isfull_def table_add_def)

section \<open>Properties of shuffleChunk\<close>

lemma shuffleChunk_rejects:
  "type_size < 0 \<or> 8 < type_size \<Longrightarrow>
   shuffleChunk True input input_size output_offset output_size type_size =
     Inl (RunTimeException ''invalid data size to perform shuffle on: %d'')"
  by (simp add: shuffleChunk_def)


section \<open>Properties of H5Coro::traverse\<close>

lemma parseUrl_ftp: "parseUrl ''ftp://host/granule.h5'' = (UNKNOWN, Some ''host/granule.h5'')"
  by (simp add: parseUrl_def)

lemma locate_ftp:
  "locate_metadata max_len w repo ''ftp://host/granule.h5'' ds =
     Inl (RunTimeException ''Invalid url: %s'')"
  by (simp add: locate_metadata_def parseUrl_ftp)

text \<open>
  Claim C9.  \<open>traverse\<close> sets \<open>status\<close> to \<open>true\<close> and never changes it: the handler only
  logs.  For the url \<open>ftp://host/granule.h5\<close> the constructor raises "Invalid url", and
  \<open>traverse\<close> still returns \<open>true\<close>; for no input at all does it return \<open>false\<close>.  The
  claim that it returns \<open>false\<close> when the open or the walk fails does not hold of the
  code.
\<close>

theorem traverse_returns_true_on_failure:
  "fst (H5FileBuffer max_len invalid_key w metaRepo ''ftp://host/granule.h5'' ''/gt1l'' 0 0 True) =
     Inl (RunTimeException ''Invalid url: %s'') \<and>
   traverse max_len invalid_key w metaRepo ''ftp://host/granule.h5'' ''/gt1l'' = Inr True \<and>
   traverse max_len invalid_key w metaRepo url start_group \<noteq> Inr False"
  by (simp add: traverse_def H5FileBuffer_def locate_ftp split: sum.splits error.splits)

section \<open>Properties of readDataset\<close>

lemma foldl_u64_mult:
  "foldl (\<lambda>r d. u64 (r * f d)) (u64 a) ds = u64 (a * prod_list (map f ds))"
proof (induction ds arbitrary: a)
  case Nil
  then show ?case by simp
next
  case (Cons d ds)
  have "u64 (u64 a * f d) = u64 (a * f d)"
    by (simp add: u64_def mod_mult_left_eq)
  then show ?case using Cons[of "a * f d"] by (simp add: mult.assoc)
qed

lemma row_size_of_spec: "row_size_of md = u64 (spec_row_size md)"
  by (simp add: row_size_of_def spec_row_size_def foldl_u64_mult)















lemma example_spec_row_size: "spec_row_size example_meta = 16"
  by (simp add: spec_row_size_def example_meta_def upt_rec)

lemma example_first_dimension: "first_dimension_of example_meta = 100"
  by (simp add: first_dimension_of_def example_meta_def)

lemma example_row_size: "row_size_of example_meta = 16"
  by (simp add: row_size_of_spec example_spec_row_size u64_def)

lemma example_num_rows:
  "num_rows_of example_meta ALL_ROWS = 100" "num_rows_of example_meta 0 = 0"
  by (simp_all add: num_rows_of_def example_first_dimension ALL_ROWS_def)

lemma example_buffer_size:
  "buffer_size_of example_meta 0 0 = Inr 0"
  "buffer_size_of example_meta 0 ALL_ROWS = Inr 1600"
  by (simp_all add: buffer_size_of_def example_num_rows example_first_dimension
        example_row_size u64_def s64_def)
     (simp_all add: example_meta_def)

lemma example_check_data: "check_data True example_meta bo B = 
    (if 1600 < s64 (s64 bo + B) then Some (RunTimeException ''read exceeds available data: %d != %d'') else None)"
  by (simp add: check_data_def example_meta_def)






section \<open>Properties of H5Coro::read on empty results\<close>

lemma tdiv_zero: "tdiv 0 x = 0"
  by (simp add: tdiv_def)

lemma readDataset_zero:
  assumes "buffer_size_of md S N = Inr 0"
  shows "readDataset ec io md S N =
           (case check_data ec md (u64 (row_size_of md * S)) 0 of
              Some e \<Rightarrow> Inl e
            | None \<Rightarrow> Inr \<lparr>info_elements = 0, info_typesize = meta_typesize md,
                           info_datasize = 0, info_data = None,
                           info_datatype = datatype_of md, info_numcols = numcols_of md,
                           info_numrows = num_rows_of md N\<rparr>)"
  using assms
  by (simp add: readDataset_def new_buffer_def fill_buffer_def tdiv_zero Let_def
           split: option.splits)

lemma read_of_ctor:
  "fst (H5Coro_read max_len ik fp w repo url ds valtype col S N) =
     (case fst (H5FileBuffer max_len ik w repo url ds S N True) of
        Inl e \<Rightarrow> Inl e
      | Inr info \<Rightarrow> translate_info fp valtype col info)"
  by (simp add: H5Coro_read_def split: prod.splits sum.splits)

lemma ctor_of_locate:
  assumes "locate_metadata max_len w repo url ds = Inr (key, md)"
  shows "fst (H5FileBuffer max_len ik w repo url ds S N ec) =
           (case readDataset ec (dataset_reads w) md S N of
              Inl e \<Rightarrow> Inl (rethrow ds e)
            | Inr info \<Rightarrow> Inr info)"
  using assms by (simp add: H5FileBuffer_def split: sum.splits)

text \<open>
  Claim C10, as amended.  Let the constructor reach \<open>readDataset\<close> with metadata \<open>md\<close>
  and let the computed buffer size be zero.  Then \<open>H5Coro::read\<close> raises an exception
  in every case, so it never returns an empty result.  If the checks of the data
  address and size pass, the constructor completes with the data pointer \<open>NULL\<close> and
  zero elements, and \<open>read\<close> raises "failed to read dataset".  If one of these checks
  fails, \<open>read\<close> raises the exception of the check instead, with the dataset name
  appended by the constructor.
\<close>

theorem read_of_zero_size:
  assumes "locate_metadata max_len w repo url ds = Inr (key, md)"
    and "buffer_size_of md S N = Inr 0"
  shows "isl (fst (H5Coro_read max_len ik fp w repo url ds valtype col S N)) \<and>
         (check_data True md (u64 (row_size_of md * S)) 0 = None \<longrightarrow>
            (\<exists>info. fst (H5FileBuffer max_len ik w repo url ds S N True) = Inr info \<and>
                 info_data info = None \<and> info_elements info = 0) \<and>
            fst (H5Coro_read max_len ik fp w repo url ds valtype col S N) =
              Inl (RunTimeException ''failed to read dataset: %s'')) \<and>
         (\<forall>e. check_data True md (u64 (row_size_of md * S)) 0 = Some e \<longrightarrow>
            fst (H5Coro_read max_len ik fp w repo url ds valtype col S N) = Inl (rethrow ds e))"
proof (cases "check_data True md (u64 (row_size_of md * S)) 0")
  case None
  then show ?thesis
    by (simp add: read_of_ctor ctor_of_locate[OF assms(1)] readDataset_zero[OF assms(2)]
          translate_info_def)
next
  case (Some e)
  then show ?thesis
    by (simp add: read_of_ctor ctor_of_locate[OF assms(1)] readDataset_zero[OF assms(2)])
qed

lemma parseUrl_file:
  "parseUrl ''file://granule.h5'' = (FILE, Some ''granule.h5'')"
  by (simp add: parseUrl_def)

lemma metaGetUrl_example: "metaGetUrl 64 ''granule.h5'' ''grid'' = Inr ''granule.h5/grid''"
  by (simp add: metaGetUrl_def dataset_name_of_def)

lemma locate_example:
  "locate_metadata 64 (world_of md) empty_repo ''file://granule.h5'' ''grid'' =
     Inr (metaGetKey 64 ''granule.h5/grid'', md\<lparr>meta_url := ''granule.h5/grid''\<rparr>)"
  by (simp add: locate_metadata_def parseUrl_file ioOpen_def world_of_def meta_lookup_def
        metaGetUrl_example table_find_exactly_def empty_repo_def)

lemma empty_meta_url: "empty_meta\<lparr>meta_url := ''granule.h5/grid''\<rparr> = empty_meta"
  by (simp add: empty_meta_def example_meta_def)

lemma example_meta_url: "example_meta\<lparr>meta_url := ''granule.h5/grid''\<rparr> = example_meta"
  by (simp add: example_meta_def)

lemma empty_row_size: "row_size_of empty_meta = 16"
  by (simp add: row_size_of_def empty_meta_def example_meta_def u64_def upt_rec)

lemma empty_buffer_size: "buffer_size_of empty_meta 0 ALL_ROWS = Inr 0"
  by (simp add: buffer_size_of_def num_rows_of_def first_dimension_of_def empty_row_size
        u64_def s64_def)
     (simp add: empty_meta_def example_meta_def)

lemma empty_check:
  "check_data True empty_meta bo B =
     Some (RunTimeException ''data not allocated in contiguous layout'')"
  by (simp add: check_data_def empty_meta_def)

text \<open>Reading all rows of the dataset of no rows raises the exception of the address
  check, not "failed to read dataset".\<close>

theorem read_of_empty_dataset:
  "buffer_size_of empty_meta 0 ALL_ROWS = Inr 0 \<and>
   fst (H5Coro_read 64 18446744073709551615 no_fp (world_of empty_meta) empty_repo
          ''file://granule.h5'' ''grid'' DYNAMIC 0 0 ALL_ROWS) =
     Inl (RunTimeException ''data not allocated in contiguous layout (grid)'') \<and>
   fst (H5Coro_read 64 18446744073709551615 no_fp (world_of empty_meta) empty_repo
          ''file://granule.h5'' ''grid'' DYNAMIC 0 0 ALL_ROWS) \<noteq>
     Inl (RunTimeException ''failed to read dataset: %s'')"
  by (simp add: empty_buffer_size read_of_ctor ctor_of_locate[OF locate_example]
        empty_meta_url readDataset_zero[OF empty_buffer_size] empty_check rethrow_def)

theorem read_of_zero_size_witness:
  "locate_metadata 64 (world_of example_meta) empty_repo ''file://granule.h5'' ''grid'' =
     Inr (metaGetKey 64 ''granule.h5/grid'', example_meta) \<and>
   buffer_size_of example_meta 0 0 = Inr 0 \<and>
   check_data True example_meta (u64 (row_size_of example_meta * 0)) 0 = None \<and>
   isl (fst (H5Coro_read 64 18446744073709551615 no_fp (world_of example_meta) empty_repo
          ''file://granule.h5'' ''grid'' DYNAMIC 0 0 0)) \<and>
   fst (H5Coro_read 64 18446744073709551615 no_fp (world_of example_meta) empty_repo
          ''file://granule.h5'' ''grid'' DYNAMIC 0 0 0) =
     Inl (RunTimeException ''failed to read dataset: %s'') \<and>
   check_data True empty_meta (u64 (row_size_of empty_meta * 0)) 0 =
     Some (RunTimeException ''data not allocated in contiguous layout'') \<and>
   fst (H5Coro_read 64 18446744073709551615 no_fp (world_of empty_meta) empty_repo
          ''file://granule.h5'' ''grid'' DYNAMIC 0 0 ALL_ROWS) =
     Inl (rethrow ''grid'' (RunTimeException ''data not allocated in contiguous layout''))"
proof -
  have l1: "locate_metadata 64 (world_of example_meta) empty_repo ''file://granule.h5'' ''grid'' =
     Inr (metaGetKey 64 ''granule.h5/grid'', example_meta)"
    using locate_example[of example_meta] by (simp add: example_meta_url)
  have l2: "locate_metadata 64 (world_of empty_meta) empty_repo ''file://granule.h5'' ''grid'' =
     Inr (metaGetKey 64 ''granule.h5/grid'', empty_meta)"
    using locate_example[of empty_meta] by (simp add: empty_meta_url)
  have c: "check_data True example_meta (u64 (row_size_of example_meta * 0)) 0 = None"
    by (simp add: example_check_data u64_def s64_def)
  show ?thesis
    using read_of_zero_size[OF l1 example_buffer_size(1),
            of 18446744073709551615 no_fp DYNAMIC 0]
          read_of_zero_size[OF l2 empty_buffer_size,
            of 18446744073709551615 no_fp DYNAMIC 0]
          l1 c example_buffer_size(1) empty_check
    by simp
qed


section \<open>Properties of the chunk location\<close>













section \<open>Properties of the metadata repository\<close>














section \<open>Properties of the column selection\<close>























end
